theory Spec2Isabelle
  imports
    Main
    "HOL-Library.Char_ord"
    "HOL-Library.List_Lexorder"
    "HOL-Library.Product_Lexorder"
    "HOL-Library.Sublist"
    "HOL-Library.Multiset"
begin

section \<open>The Netflix dashboard (my\_app.py): data preparation and chart recomputation\<close>

text \<open>
  The module loads a CSV table into the global data frame \<open>df\<close>, cleans it, explodes it
  by genre (\<open>df = df.explode('genres')\<close>, which replaces \<open>df\<close>), and registers the callback
  \<open>update_dashboard\<close> that filters \<open>df\<close> and computes the data tables of five charts.

  A data frame is a list of rows in table order; a cell that pandas holds as NaN/NaT/None
  is \<open>None\<close>. A boolean mask is a \<open>bool list\<close> of the same length.
\<close>

subsection \<open>What the libraries contribute\<close>

text \<open>
  Three library parsers are not code of the module and are taken as parameters:
  \<^item> \<open>to_datetime\<close>: \<open>pd.to_datetime(_, errors='coerce')\<close> on one cell, \<open>None\<close> where the
    text does not parse (NaT);
  \<^item> \<open>to_numeric\<close>: \<open>pd.to_numeric(_, errors='coerce')\<close> on one cell, \<open>None\<close> where the text
    is not a number (NaN); the release years are whole numbers, so the value is an \<open>int\<close>;
  \<^item> \<open>re_compile\<close>: \<open>re.compile\<close> on a pattern that holds a regular-expression
    metacharacter: \<open>None\<close> where the pattern is malformed (\<open>re.error\<close>), else the
    predicate \<open>\<lambda>s. regex.search(s) is not None\<close>.
\<close>

type_synonym date = "int \<times> nat \<times> nat"

record pandas =
  to_datetime :: "string \<Rightarrow> date option"
  to_numeric :: "string \<Rightarrow> int option"
  re_compile :: "string \<Rightarrow> (string \<Rightarrow> bool) option"

datatype error =
    RegexError \<comment> \<open>\<open>re.error\<close>: a malformed pattern\<close>
  | AttributeError \<comment> \<open>\<open>.str\<close> on a column that holds no string\<close>
  | ValueError \<comment> \<open>\<open>int(nan)\<close>\<close>
  | TypeError \<comment> \<open>a name bound to an object of another kind\<close>

definition dt_year :: "date \<Rightarrow> int" where
  \<comment> \<open>\<open>.dt.year\<close>\<close>
  "dt_year d = fst d"

subsection \<open>String operations\<close>

fun starts_with :: "string \<Rightarrow> string \<Rightarrow> bool" where
  \<comment> \<open>\<open>starts_with pat s\<close>: \<open>s.startswith(pat)\<close>\<close>
  "starts_with [] s = True"
| "starts_with (p # ps) [] = False"
| "starts_with (p # ps) (c # cs) = (p = c \<and> starts_with ps cs)"

fun is_substring :: "string \<Rightarrow> string \<Rightarrow> bool" where
  \<comment> \<open>\<open>is_substring pat s\<close>: Python's \<open>pat in s\<close>\<close>
  "is_substring pat [] = (pat = [])"
| "is_substring pat (c # cs) = (starts_with pat (c # cs) \<or> is_substring pat cs)"

definition regex_special :: "char \<Rightarrow> bool" where
  \<comment> \<open>the metacharacters of Python's \<open>re\<close> syntax\<close>
  "regex_special c = (c \<in> set (''.^$*+?{}[]|()'' @ [CHR 0x5C]))"

definition regex_literal :: "string \<Rightarrow> bool" where
  "regex_literal pat = (\<not> list_ex regex_special pat)"

definition re_search :: "pandas \<Rightarrow> string \<Rightarrow> error + (string \<Rightarrow> bool)" where
  \<comment> \<open>A pattern without metacharacters matches exactly its own text, so searching for it
      is substring search; any other pattern goes to the regex engine.\<close>
  "re_search lib pat =
     (if regex_literal pat then Inr (is_substring pat)
      else (case re_compile lib pat of
              None \<Rightarrow> Inl RegexError
            | Some search \<Rightarrow> Inr search))"

definition str_contains :: "pandas \<Rightarrow> string option list \<Rightarrow> string \<Rightarrow> error + bool list" where
  \<comment> \<open>\<open>col.str.contains(pat, na=False)\<close>; \<open>regex=True\<close> is the default of pandas\<close>
  "str_contains lib col pat =
     (case re_search lib pat of
        Inl e \<Rightarrow> Inl e
      | Inr search \<Rightarrow>
          Inr (map (\<lambda>cell. case cell of None \<Rightarrow> False | Some s \<Rightarrow> search s) col))"

fun str_split :: "string \<Rightarrow> string \<Rightarrow> string list" where
  \<comment> \<open>\<open>str_split sep s\<close>: \<open>s.split(sep)\<close> for a non-empty separator: cut at each occurrence
      of \<open>sep\<close>, found left to right without overlap\<close>
  "str_split sep [] = [[]]"
| "str_split sep (c # cs) =
     (if sep \<noteq> [] \<and> starts_with sep (c # cs)
      then [] # str_split sep (drop (length sep) (c # cs))
      else (case str_split sep cs of
              [] \<Rightarrow> [[c]]
            | t # ts \<Rightarrow> (c # t) # ts))"

definition is_digit :: "char \<Rightarrow> bool" where
  "is_digit c = (CHR ''0'' \<le> c \<and> c \<le> CHR ''9'')"

definition digit_val :: "char \<Rightarrow> nat" where
  "digit_val c = of_char c - of_char CHR ''0''"

definition str_extract_digits :: "string \<Rightarrow> nat option" where
  \<comment> \<open>\<open>.str.extract(r'(\d+)').astype(float)\<close> on one cell: the first run of digits, read
      as a decimal number; NaN when the text has no digit\<close>
  "str_extract_digits s =
     (let run = takeWhile is_digit (dropWhile (\<lambda>c. \<not> is_digit c) s)
      in if run = [] then None else Some (foldl (\<lambda>n c. 10 * n + digit_val c) 0 run))"

subsection \<open>Series operations\<close>

definition loc_mask :: "'a list \<Rightarrow> bool list \<Rightarrow> 'a list" where
  \<comment> \<open>\<open>frame[mask]\<close>: the rows whose mask entry is true, in order\<close>
  "loc_mask rows keep = map fst (filter snd (zip rows keep))"

definition ge_col :: "int option list \<Rightarrow> int \<Rightarrow> bool list" where
  \<comment> \<open>\<open>col >= x\<close>: a comparison with NaN is false\<close>
  "ge_col col x = map (\<lambda>v. case v of None \<Rightarrow> False | Some y \<Rightarrow> x \<le> y) col"

definition le_col :: "int option list \<Rightarrow> int \<Rightarrow> bool list" where
  \<comment> \<open>\<open>col <= x\<close>\<close>
  "le_col col x = map (\<lambda>v. case v of None \<Rightarrow> False | Some y \<Rightarrow> y \<le> x) col"

definition eq_col :: "string option list \<Rightarrow> string \<Rightarrow> bool list" where
  \<comment> \<open>\<open>col == x\<close>\<close>
  "eq_col col x = map (\<lambda>v. v = Some x) col"

definition and_mask :: "bool list \<Rightarrow> bool list \<Rightarrow> bool list" where
  \<comment> \<open>\<open>a & b\<close>\<close>
  "and_mask a b = map2 (\<and>) a b"

definition dropna :: "'a option list \<Rightarrow> 'a list" where
  "dropna col = List.map_filter (\<lambda>v. v) col"

fun tally :: "'a \<Rightarrow> ('a \<times> nat) list \<Rightarrow> ('a \<times> nat) list" where
  \<comment> \<open>one more occurrence of \<open>v\<close> in a table of counts kept in first-seen order\<close>
  "tally v [] = [(v, 1)]"
| "tally v ((k, c) # kcs) = (if k = v then (k, c + 1) # kcs else (k, c) # tally v kcs)"

definition value_counts :: "'a option list \<Rightarrow> ('a \<times> nat) list" where
  \<comment> \<open>\<open>col.value_counts()\<close>: NaN dropped, one entry per distinct value with its number of
      occurrences, by descending count; equal counts stay in first-seen order\<close>
  "value_counts col =
     sort_key (\<lambda>(v, c). - int c) (foldl (\<lambda>acc v. tally v acc) [] (dropna col))"

definition groupby_size :: "('k::linorder) option list \<Rightarrow> ('k \<times> nat) list" where
  \<comment> \<open>\<open>frame.groupby(keys).size()\<close> on the column of key tuples, \<open>None\<close> for a row with a
      NaN key: such rows are dropped (\<open>dropna=True\<close>), the groups come sorted by key\<close>
  "groupby_size keys =
     (let ks = dropna keys in map (\<lambda>k. (k, count_list ks k)) (sort (remdups ks)))"

subsection \<open>The data frame\<close>

text \<open>The columns of \<open>netflix_titles.csv\<close> that the module reads, as \<open>read_csv\<close> returns them:
  the text of each cell, \<open>None\<close> for an empty cell.\<close>

record csv_row =
  csv_title :: "string option"
  csv_type :: "string option"
  csv_country :: "string option"
  csv_date_added :: "string option"
  csv_release_year :: "string option"
  csv_rating :: "string option"
  csv_duration :: "string option"
  csv_listed_in :: "string option"

text \<open>A row of \<open>df\<close> after the preprocessing. The column \<open>genres\<close> holds a list of tokens
  before \<open>explode\<close> and a single token after it, hence the type parameter.\<close>

record 'g row =
  title :: "string option"
  type :: "string option"
  country :: "string option"
  date_added :: "date option"
  year_added :: "int option"
  rating :: "string option"
  duration :: "string option"
  duration_num :: "nat option"
  duration_unit :: "string option"
  movie_duration :: "nat option"
  tv_seasons :: "nat option"
  listed_in :: "string option"
  release_year :: "int option"
  genres :: 'g

definition fillna :: "'a option \<Rightarrow> 'a \<Rightarrow> 'a option" where
  "fillna cell v = (case cell of None \<Rightarrow> Some v | Some x \<Rightarrow> Some x)"

definition contains_na_false :: "string \<Rightarrow> string option \<Rightarrow> bool" where
  \<comment> \<open>\<open>.str.contains(pat, na=False)\<close> on one cell, for the two metacharacter-free patterns
      \<open>'min'\<close> and \<open>'Season'\<close> of the preprocessing\<close>
  "contains_na_false pat cell = (case cell of None \<Rightarrow> False | Some s \<Rightarrow> is_substring pat s)"

definition preprocess :: "pandas \<Rightarrow> csv_row \<Rightarrow> (string list option) row" where
  \<comment> \<open>Lines 26 to 45 and 49 of the module, on one row: every statement there assigns a
      column computed cell by cell. Line 49 (\<open>release_year\<close>) comes after \<open>explode\<close> in the
      source; it touches no column that \<open>explode\<close> reads, so it is applied here.\<close>
  "preprocess lib r =
     (let date_added' = Option.bind (csv_date_added r) (to_datetime lib);
          year_added' = map_option dt_year date_added';
          country' = fillna (csv_country r) ''Unknown'';
          rating' = fillna (csv_rating r) ''Unknown'';
          duration_num' = Option.bind (csv_duration r) str_extract_digits;
          duration_unit' =
            (if contains_na_false ''min'' (csv_duration r) then Some ''min''
             else if contains_na_false ''Season'' (csv_duration r) then Some ''season''
             else None);
          movie_duration' = (if csv_type r = Some ''Movie'' then duration_num' else None);
          tv_seasons' = (if csv_type r = Some ''TV Show'' then duration_num' else None);
          genres' = map_option (str_split '', '') (csv_listed_in r);
          release_year' = Option.bind (csv_release_year r) (to_numeric lib)
      in \<lparr> title = csv_title r, type = csv_type r, country = country',
           date_added = date_added', year_added = year_added', rating = rating',
           duration = csv_duration r, duration_num = duration_num',
           duration_unit = duration_unit', movie_duration = movie_duration',
           tv_seasons = tv_seasons', listed_in = csv_listed_in r,
           release_year = release_year', genres = genres' \<rparr>)"

definition with_genres :: "'g row \<Rightarrow> 'h \<Rightarrow> 'h row" where
  \<comment> \<open>a copy of the row with another cell in column \<open>genres\<close>\<close>
  "with_genres r g =
     \<lparr> title = title r, type = type r, country = country r, date_added = date_added r,
       year_added = year_added r, rating = rating r, duration = duration r,
       duration_num = duration_num r, duration_unit = duration_unit r,
       movie_duration = movie_duration r, tv_seasons = tv_seasons r,
       listed_in = listed_in r, release_year = release_year r, genres = g \<rparr>"

definition explode_cell :: "'a list option \<Rightarrow> 'a option list" where
  \<comment> \<open>what \<open>explode\<close> makes of one cell: a list gives one cell per element, an empty list
      gives one NaN cell, and a scalar (here NaN) is returned unchanged\<close>
  "explode_cell cell =
     (case cell of
        None \<Rightarrow> [None]
      | Some [] \<Rightarrow> [None]
      | Some (x # xs) \<Rightarrow> map Some (x # xs))"

definition explode_genres :: "(string list option) row \<Rightarrow> (string option) row list" where
  "explode_genres r = map (with_genres r) (explode_cell (genres r))"

definition exploded_rows :: "pandas \<Rightarrow> csv_row list \<Rightarrow> (string option) row list" where
  \<comment> \<open>the rows that lines 26 to 49 give when none of them raises: every record
      preprocessed, then \<open>df = df.explode('genres')\<close>\<close>
  "exploded_rows lib csv = concat (map (\<lambda>r. explode_genres (preprocess lib r)) csv)"

definition str_accessor :: "string option list \<Rightarrow> error + string option list" where
  \<comment> \<open>\<open>col.str\<close>: a column of \<open>read_csv\<close> in which every cell is empty is a float64 column,
      and \<open>.str\<close> raises AttributeError on it; a column with a string cell, and the column
      of a table without rows, is an object column\<close>
  "str_accessor col =
     (if col \<noteq> [] \<and> list_all (\<lambda>cell. cell = None) col then Inl AttributeError else Inr col)"

definition prepare_df :: "pandas \<Rightarrow> csv_row list \<Rightarrow> error + (string option) row list" where
  \<comment> \<open>lines 26 to 49: \<open>df['duration'].str\<close> (lines 34 to 37) and \<open>df['listed_in'].str\<close>
      (line 45) raise on a column without a string\<close>
  "prepare_df lib csv =
     (case str_accessor (map csv_duration csv) of
        Inl e \<Rightarrow> Inl e
      | Inr _ \<Rightarrow>
          (case str_accessor (map csv_listed_in csv) of
             Inl e \<Rightarrow> Inl e
           | Inr _ \<Rightarrow> Inr (exploded_rows lib csv)))"

definition country_options :: "(string option) row list \<Rightarrow> string list" where
  \<comment> \<open>the options of \<open>country-dropdown\<close>:
      \<open>['All'] + list(df['country'].value_counts().head(10).index)\<close>\<close>
  "country_options df = ''All'' # map fst (take 10 (value_counts (map country df)))"

definition nan_min :: "int option list \<Rightarrow> int option" where
  \<comment> \<open>\<open>col.min()\<close>: NaN cells are skipped, the result is NaN when no cell is left\<close>
  "nan_min col = (case dropna col of [] \<Rightarrow> None | y # ys \<Rightarrow> Some (foldl min y ys))"

definition nan_max :: "int option list \<Rightarrow> int option" where
  \<comment> \<open>\<open>col.max()\<close>\<close>
  "nan_max col = (case dropna col of [] \<Rightarrow> None | y # ys \<Rightarrow> Some (foldl max y ys))"

definition py_int :: "int option \<Rightarrow> error + int" where
  \<comment> \<open>\<open>int(x)\<close> raises ValueError on NaN\<close>
  "py_int x = (case x of None \<Rightarrow> Inl ValueError | Some y \<Rightarrow> Inr y)"

definition py_range :: "int \<Rightarrow> int \<Rightarrow> int \<Rightarrow> int list" where
  \<comment> \<open>\<open>range(a, b, step)\<close> for a positive step\<close>
  "py_range a b step = map (\<lambda>k. a + step * int k) [0 ..< nat ((b - 1 - a) div step + 1)]"

record layout =
  slider_min :: "int option"
  slider_max :: "int option"
  slider_value :: "int option \<times> int option"
  slider_marks :: "int list"
  type_options :: "string list"
  country_dropdown :: "string list"

definition app_layout :: "(string option) row list \<Rightarrow> error + layout" where
  \<comment> \<open>lines 56 to 117: what the layout computes from \<open>df\<close>. The marks of the year slider
      (lines 74 and 75) call \<open>int\<close> on the smallest and the largest release year, which
      raises when no row has one.\<close>
  "app_layout df =
     (case py_int (nan_min (map release_year df)) of
        Inl e \<Rightarrow> Inl e
      | Inr lo \<Rightarrow>
          (case py_int (nan_max (map release_year df)) of
             Inl e \<Rightarrow> Inl e
           | Inr hi \<Rightarrow>
               Inr \<lparr> slider_min = nan_min (map release_year df),
                     slider_max = nan_max (map release_year df),
                     slider_value = (nan_min (map release_year df), nan_max (map release_year df)),
                     slider_marks = py_range lo (hi + 1) 5,
                     type_options = [''All'', ''Movie'', ''TV Show''],
                     country_dropdown = country_options df \<rparr>))"

definition load_df :: "pandas \<Rightarrow> csv_row list \<Rightarrow> error + (string option) row list" where
  \<comment> \<open>the global \<open>df\<close> of a module that was imported without raising (lines 26 to 117):
      only then is the callback registered and the server started\<close>
  "load_df lib csv =
     (case prepare_df lib csv of
        Inl e \<Rightarrow> Inl e
      | Inr df \<Rightarrow>
          (case app_layout df of
             Inl e \<Rightarrow> Inl e
           | Inr _ \<Rightarrow> Inr df))"

subsection \<open>The callback \<open>update_dashboard\<close>\<close>

record charts =
  type_counts :: "(string \<times> nat) list"
  genre_counts :: "(string \<times> nat) list"
  timeline_df :: "((int \<times> string) \<times> nat) list"
  scatter_df :: "(string option) row list"
  country_counts :: "(string \<times> nat) list"

definition year_filter :: "(string option) row list \<Rightarrow> int \<times> int \<Rightarrow> (string option) row list" where
  \<comment> \<open>lines 132 to 135\<close>
  "year_filter df selected_years =
     loc_mask df (and_mask (ge_col (map release_year df) (fst selected_years))
                           (le_col (map release_year df) (snd selected_years)))"

definition type_filter :: "(string option) row list \<Rightarrow> string \<Rightarrow> (string option) row list" where
  \<comment> \<open>lines 137 and 138\<close>
  "type_filter filtered_df selected_type =
     (if selected_type \<noteq> ''All''
      then loc_mask filtered_df (eq_col (map type filtered_df) selected_type)
      else filtered_df)"

definition country_filter ::
  "pandas \<Rightarrow> (string option) row list \<Rightarrow> string \<Rightarrow> error + (string option) row list" where
  \<comment> \<open>lines 140 and 141\<close>
  "country_filter lib filtered_df selected_country =
     (if selected_country \<noteq> ''All''
      then (case str_contains lib (map country filtered_df) selected_country of
              Inl e \<Rightarrow> Inl e
            | Inr keep \<Rightarrow> Inr (loc_mask filtered_df keep))
      else Inr filtered_df)"

definition filter_df ::
  "pandas \<Rightarrow> (string option) row list \<Rightarrow> int \<times> int \<Rightarrow> string \<Rightarrow> string
     \<Rightarrow> error + (string option) row list" where
  \<comment> \<open>lines 132 to 141: \<open>filtered_df\<close> as the charts see it\<close>
  "filter_df lib df selected_years selected_type selected_country =
     country_filter lib (type_filter (year_filter df selected_years) selected_type)
       selected_country"

definition timeline_keys :: "(string option) row list \<Rightarrow> (int \<times> string) option list" where
  \<comment> \<open>the key of each row for \<open>groupby(['year_added', 'type'])\<close>\<close>
  "timeline_keys rows =
     map (\<lambda>r. case (year_added r, type r) of
                 (Some y, Some t) \<Rightarrow> Some (y, t)
               | _ \<Rightarrow> None) rows"

definition explode_countries :: "(string option) row list \<Rightarrow> string option list" where
  \<comment> \<open>column \<open>country\<close> of
      \<open>filtered_df.assign(country=filtered_df['country'].str.split(', ')).explode('country')\<close>\<close>
  "explode_countries rows =
     concat (map (\<lambda>r. explode_cell (map_option (str_split '', '') (country r))) rows)"

definition make_charts :: "(string option) row list \<Rightarrow> charts" where
  \<comment> \<open>lines 143 to 218: the data table of each of the five figures\<close>
  "make_charts filtered_df =
     \<lparr> type_counts = value_counts (map type filtered_df),
       genre_counts = take 10 (value_counts (map genres filtered_df)),
       timeline_df = groupby_size (timeline_keys filtered_df),
       scatter_df = filter (\<lambda>r. duration_num r \<noteq> None) filtered_df,
       country_counts = value_counts (explode_countries filtered_df) \<rparr>"

definition update_dashboard ::
  "pandas \<Rightarrow> (string option) row list \<Rightarrow> int \<times> int \<Rightarrow> string \<Rightarrow> string \<Rightarrow> error + charts" where
  "update_dashboard lib df selected_years selected_type selected_country =
     (case filter_df lib df selected_years selected_type selected_country of
        Inl e \<Rightarrow> Inl e
      | Inr filtered_df \<Rightarrow> Inr (make_charts filtered_df))"

subsection \<open>The callback statement by statement, on a store of objects\<close>

text \<open>
  Python names are bound to objects, and a statement either builds a new object or
  changes one in place. To see what a run of the callback does to objects that exist
  already (the frame the global \<open>df\<close> is bound to among them), its body is modelled a second
  time on a store: a list of objects, an address being a position in it.
  \<^item> \<open>frame[mask]\<close>, \<open>dropna\<close>, \<open>assign\<close>, \<open>explode\<close>, \<open>value_counts().reset_index()\<close>,
    \<open>groupby(...).size().reset_index()\<close> and the \<open>px\<close> constructors return a new object
    (\<open>new\<close>);
  \<^item> \<open>table.columns = [...]\<close> and the \<open>update_...\<close> methods of a figure change the object
    they are called on (\<open>modify\<close>);
  \<^item> the function has no \<open>global\<close> statement, so the name \<open>df\<close> stays bound to the same
    address \<open>df_ref\<close> throughout.
  A computation takes the store and returns its result, or the exception raised, with the
  store as it leaves it.
\<close>

datatype chart_data =
    Counts "(string \<times> nat) list"
  | Groups "((int \<times> string) \<times> nat) list"
  | Points "(string option) row list"

record figure =
  fig_kind :: string
  fig_title :: string
  fig_data :: chart_data
  fig_updates :: "string list"

datatype obj =
    Frame "(string option) row list"
  | Table "string list" chart_data
  | Column "string option list"
  | Fig figure

type_synonym heap = "obj list"

type_synonym 'a py = "heap \<Rightarrow> (error + 'a) \<times> heap"

definition ret :: "'a \<Rightarrow> 'a py" where
  \<comment> \<open>a value, the store untouched\<close>
  "ret x h = (Inr x, h)"

definition raise :: "error \<Rightarrow> 'a py" where
  "raise e h = (Inl e, h)"

definition seq :: "'a py \<Rightarrow> ('a \<Rightarrow> 'b py) \<Rightarrow> 'b py" where
  \<comment> \<open>one statement after another; an exception ends the run\<close>
  "seq m f h = (case m h of (Inl e, h') \<Rightarrow> (Inl e, h') | (Inr x, h') \<Rightarrow> f x h')"

definition lift :: "error + 'a \<Rightarrow> 'a py" where
  "lift r = (case r of Inl e \<Rightarrow> raise e | Inr x \<Rightarrow> ret x)"

definition new :: "obj \<Rightarrow> nat py" where
  \<comment> \<open>a new object, at a fresh address\<close>
  "new x h = (Inr (length h), h @ [x])"

definition modify :: "nat \<Rightarrow> (obj \<Rightarrow> obj) \<Rightarrow> unit py" where
  \<comment> \<open>a change in place of the object at an address\<close>
  "modify a f h = (if a < length h then (Inr (), h[a := f (h ! a)]) else (Inl TypeError, h))"

definition deref :: "nat \<Rightarrow> obj py" where
  \<comment> \<open>the object a name is bound to\<close>
  "deref a h = (if a < length h then (Inr (h ! a), h) else (Inl TypeError, h))"

definition frame_of :: "nat \<Rightarrow> ((string option) row list) py" where
  "frame_of a = seq (deref a) (\<lambda>x. case x of Frame rows \<Rightarrow> ret rows | _ \<Rightarrow> raise TypeError)"

definition table_of :: "nat \<Rightarrow> chart_data py" where
  "table_of a = seq (deref a) (\<lambda>x. case x of Table labels d \<Rightarrow> ret d | _ \<Rightarrow> raise TypeError)"

definition column_of :: "nat \<Rightarrow> (string option list) py" where
  "column_of a = seq (deref a) (\<lambda>x. case x of Column col \<Rightarrow> ret col | _ \<Rightarrow> raise TypeError)"

definition fig_of :: "nat \<Rightarrow> figure py" where
  "fig_of a = seq (deref a) (\<lambda>x. case x of Fig f \<Rightarrow> ret f | _ \<Rightarrow> raise TypeError)"

definition set_columns :: "string list \<Rightarrow> obj \<Rightarrow> obj" where
  \<comment> \<open>\<open>table.columns = labels\<close>\<close>
  "set_columns labels x = (case x of Table _ d \<Rightarrow> Table labels d | other \<Rightarrow> other)"

definition fig_update :: "string \<Rightarrow> obj \<Rightarrow> obj" where
  \<comment> \<open>an \<open>update_...\<close> call on a figure, recorded in the order of the calls\<close>
  "fig_update u x =
     (case x of Fig f \<Rightarrow> Fig (f\<lparr>fig_updates := fig_updates f @ [u]\<rparr>) | other \<Rightarrow> other)"

definition px :: "string \<Rightarrow> string \<Rightarrow> chart_data \<Rightarrow> obj" where
  \<comment> \<open>a \<open>plotly.express\<close> constructor: a figure with a copy of the data it is given\<close>
  "px k t d = Fig \<lparr> fig_kind = k, fig_title = t, fig_data = d, fig_updates = [] \<rparr>"

definition filter_stmts :: "pandas \<Rightarrow> nat \<Rightarrow> int \<times> int \<Rightarrow> string \<Rightarrow> string \<Rightarrow> nat py" where
  \<comment> \<open>lines 132 to 141; the result is the address \<open>filtered_df\<close> is bound to at the end\<close>
  "filter_stmts lib df_ref selected_years selected_type selected_country =
     seq (frame_of df_ref) (\<lambda>df.
     seq (new (Frame (year_filter df selected_years))) (\<lambda>filtered_df.
     seq (if selected_type \<noteq> ''All''
          then seq (frame_of filtered_df) (\<lambda>f.
               new (Frame (loc_mask f (eq_col (map type f) selected_type))))
          else ret filtered_df) (\<lambda>filtered_df.
     if selected_country \<noteq> ''All''
     then seq (frame_of filtered_df) (\<lambda>f.
          seq (lift (str_contains lib (map country f) selected_country)) (\<lambda>keep.
          new (Frame (loc_mask f keep))))
     else ret filtered_df)))"

definition pie_stmts :: "nat \<Rightarrow> nat py" where
  \<comment> \<open>lines 144 to 155. \<open>reset_index\<close> labels the columns \<open>type\<close> and \<open>count\<close> (pandas 2);
      line 145 sets the labels in any case.\<close>
  "pie_stmts filtered_df =
     seq (frame_of filtered_df) (\<lambda>f.
     seq (new (Table [''type'', ''count''] (Counts (value_counts (map type f))))) (\<lambda>type_counts.
     seq (modify type_counts (set_columns [''type'', ''count''])) (\<lambda>_.
     seq (table_of type_counts) (\<lambda>d.
     seq (new (px ''pie'' ''Movies vs. TV Shows'' d)) (\<lambda>type_pie.
     seq (modify type_pie (fig_update ''update_traces(textposition=inside, textinfo=percent+label)''))
       (\<lambda>_. ret type_pie))))))"

definition bar_stmts :: "nat \<Rightarrow> nat py" where
  \<comment> \<open>lines 158 to 168\<close>
  "bar_stmts filtered_df =
     seq (frame_of filtered_df) (\<lambda>f.
     seq (new (Table [''genres'', ''count''] (Counts (take 10 (value_counts (map genres f))))))
       (\<lambda>genre_counts.
     seq (modify genre_counts (set_columns [''genre'', ''count''])) (\<lambda>_.
     seq (table_of genre_counts) (\<lambda>d.
     seq (new (px ''bar'' ''Top 10 Genres'' d)) (\<lambda>genre_bar.
     seq (modify genre_bar (fig_update ''update_layout(yaxis.categoryorder=total ascending)''))
       (\<lambda>_. ret genre_bar))))))"

definition line_stmts :: "nat \<Rightarrow> nat py" where
  \<comment> \<open>lines 171 to 180\<close>
  "line_stmts filtered_df =
     seq (frame_of filtered_df) (\<lambda>f.
     seq (new (Table [''year_added'', ''type'', ''count''] (Groups (groupby_size (timeline_keys f)))))
       (\<lambda>timeline_df.
     seq (table_of timeline_df) (\<lambda>d.
     seq (new (px ''line'' ''Content Added to Netflix Over Time'' d)) (\<lambda>timeline.
     seq (modify timeline (fig_update ''update_layout(hovermode=x unified)''))
       (\<lambda>_. ret timeline)))))"

definition scatter_stmts :: "nat \<Rightarrow> nat py" where
  \<comment> \<open>lines 183 to 198\<close>
  "scatter_stmts filtered_df =
     seq (frame_of filtered_df) (\<lambda>f.
     seq (new (Frame (filter (\<lambda>r. duration_num r \<noteq> None) f))) (\<lambda>scatter_df.
     seq (frame_of scatter_df) (\<lambda>d.
     seq (new (px ''scatter'' ''Content Duration Trends'' (Points d))) (\<lambda>duration_scatter.
     seq (modify duration_scatter (fig_update ''update_traces(marker.size=8, marker.opacity=0.6)''))
       (\<lambda>_.
     seq (modify duration_scatter (fig_update ''update_yaxes(matches=None)'')) (\<lambda>_.
     seq (modify duration_scatter (fig_update ''for_each_yaxis(title=)'')) (\<lambda>_.
     seq (modify duration_scatter
            (fig_update ''update_layout(yaxis1.title=Minutes, yaxis2.title=Seasons)''))
       (\<lambda>_. ret duration_scatter))))))))"

definition map_stmts :: "nat \<Rightarrow> nat py" where
  \<comment> \<open>lines 201 to 216; of the frame \<open>exploded_countries\<close> only the column \<open>country\<close> is
      read, and only that column is kept\<close>
  "map_stmts filtered_df =
     seq (frame_of filtered_df) (\<lambda>f.
     seq (new (Column (explode_countries f))) (\<lambda>exploded_countries.
     seq (column_of exploded_countries) (\<lambda>col.
     seq (new (Table [''country'', ''count''] (Counts (value_counts col)))) (\<lambda>country_counts.
     seq (modify country_counts (set_columns [''country'', ''count''])) (\<lambda>_.
     seq (table_of country_counts) (\<lambda>d.
     seq (new (px ''choropleth'' ''Content Production by Country'' d)) (\<lambda>country_map.
     seq (modify country_map
            (fig_update ''update_layout(geo.showframe=False, geo.showcoastlines=False)''))
       (\<lambda>_. ret country_map))))))))"

text \<open>The three values Dash passes to the callback: the year range, the type and the
  country.\<close>

type_synonym inputs = "(int \<times> int) \<times> string \<times> string"

definition callback :: "pandas \<Rightarrow> nat \<Rightarrow> inputs \<Rightarrow> (figure list) py" where
  \<comment> \<open>the body of \<open>update_dashboard\<close>, lines 132 to 218, with the name \<open>df\<close> bound to
      \<open>df_ref\<close>; line 218 returns the five figures\<close>
  "callback lib df_ref inp =
     (case inp of (selected_years, selected_type, selected_country) \<Rightarrow>
        seq (filter_stmts lib df_ref selected_years selected_type selected_country) (\<lambda>filtered_df.
        seq (pie_stmts filtered_df) (\<lambda>type_pie.
        seq (bar_stmts filtered_df) (\<lambda>genre_bar.
        seq (line_stmts filtered_df) (\<lambda>timeline.
        seq (scatter_stmts filtered_df) (\<lambda>duration_scatter.
        seq (map_stmts filtered_df) (\<lambda>country_map.
        seq (fig_of type_pie) (\<lambda>f1.
        seq (fig_of genre_bar) (\<lambda>f2.
        seq (fig_of timeline) (\<lambda>f3.
        seq (fig_of duration_scatter) (\<lambda>f4.
        seq (fig_of country_map) (\<lambda>f5.
        ret [f1, f2, f3, f4, f5]))))))))))))"

text \<open>The server answers one change of the inputs after the other, each run of the
  callback starting on the store the previous one left.\<close>

fun serve :: "pandas \<Rightarrow> nat \<Rightarrow> inputs list \<Rightarrow> heap \<Rightarrow> (error + figure list) list \<times> heap" where
  "serve lib df_ref [] h = ([], h)"
| "serve lib df_ref (inp # inps) h =
     (case callback lib df_ref inp h of (out, h') \<Rightarrow>
        (case serve lib df_ref inps h' of (outs, h'') \<Rightarrow> (out # outs, h'')))"

text \<open>The five figures as the statements of the callback build them from the tables of
  \<open>make_charts\<close>.\<close>

definition figures :: "charts \<Rightarrow> figure list" where
  "figures ch =
     [ \<lparr> fig_kind = ''pie'', fig_title = ''Movies vs. TV Shows'', fig_data = Counts (type_counts ch),
         fig_updates = [''update_traces(textposition=inside, textinfo=percent+label)''] \<rparr>,
       \<lparr> fig_kind = ''bar'', fig_title = ''Top 10 Genres'', fig_data = Counts (genre_counts ch),
         fig_updates = [''update_layout(yaxis.categoryorder=total ascending)''] \<rparr>,
       \<lparr> fig_kind = ''line'', fig_title = ''Content Added to Netflix Over Time'',
         fig_data = Groups (timeline_df ch),
         fig_updates = [''update_layout(hovermode=x unified)''] \<rparr>,
       \<lparr> fig_kind = ''scatter'', fig_title = ''Content Duration Trends'',
         fig_data = Points (scatter_df ch),
         fig_updates = [''update_traces(marker.size=8, marker.opacity=0.6)'',
                        ''update_yaxes(matches=None)'', ''for_each_yaxis(title=)'',
                        ''update_layout(yaxis1.title=Minutes, yaxis2.title=Seasons)''] \<rparr>,
       \<lparr> fig_kind = ''choropleth'', fig_title = ''Content Production by Country'',
         fig_data = Counts (country_counts ch),
         fig_updates = [''update_layout(geo.showframe=False, geo.showcoastlines=False)''] \<rparr> ]"

subsection \<open>Reading the tables\<close>

definition count_of :: "('a \<times> nat) list \<Rightarrow> 'a \<Rightarrow> nat" where
  \<comment> \<open>the count a table of counts gives for a value, 0 when it has no entry for it\<close>
  "count_of tbl v = (case map_of tbl v of None \<Rightarrow> 0 | Some c \<Rightarrow> c)"

fun join :: "string \<Rightarrow> string list \<Rightarrow> string" where
  \<comment> \<open>\<open>sep.join(tokens)\<close>\<close>
  "join sep [] = []"
| "join sep [t] = t"
| "join sep (t # u # ts) = t @ sep @ join sep (u # ts)"

subsection \<open>Sample data\<close>

text \<open>
  A concrete instance of the library parameters for the examples: whole numbers written
  in digits, dates written \<open>YYYY-MM-DD\<close>, and no pattern with a metacharacter (the
  examples use none). On the texts of the examples it agrees with pandas.
\<close>

definition parse_digits :: "string \<Rightarrow> int option" where
  "parse_digits s =
     (if s \<noteq> [] \<and> list_all is_digit s then map_option int (str_extract_digits s) else None)"

definition parse_iso_date :: "string \<Rightarrow> date option" where
  "parse_iso_date s =
     (case map parse_digits (str_split ''-'' s) of
        [Some y, Some m, Some d] \<Rightarrow>
          if 1 \<le> m \<and> m \<le> 12 \<and> 1 \<le> d \<and> d \<le> 31 then Some (y, nat m, nat d) else None
      | _ \<Rightarrow> None)"

definition sample_pandas :: pandas where
  "sample_pandas =
     \<lparr> to_datetime = parse_iso_date, to_numeric = parse_digits, re_compile = (\<lambda>pat. None) \<rparr>"

definition mk_csv ::
  "string \<Rightarrow> string \<Rightarrow> string option \<Rightarrow> string option \<Rightarrow> string option \<Rightarrow> string option
     \<Rightarrow> csv_row" where
  \<comment> \<open>a CSV line with type, release year, country, duration, listed\_in and date\_added\<close>
  "mk_csv ty yr co du li da =
     \<lparr> csv_title = None, csv_type = Some ty, csv_country = co, csv_date_added = da,
       csv_release_year = Some yr, csv_rating = None, csv_duration = du, csv_listed_in = li \<rparr>"

definition scenario :: "csv_row list" where
  \<comment> \<open>a film with one genre and a series with two\<close>
  "scenario =
     [mk_csv ''Movie'' ''2019'' (Some ''India'') (Some ''90 min'') (Some ''Comedy'') None,
      mk_csv ''TV Show'' ''2020'' (Some ''USA'') (Some ''2 Seasons'') (Some ''Drama, Comedy'') None]"

definition two_genre_show :: "csv_row list" where
  "two_genre_show =
     [mk_csv ''TV Show'' ''2020'' (Some ''USA'') (Some ''2 Seasons'') (Some ''Drama, Comedy'')
        (Some ''2020-01-05'')]"

definition titles_of :: "string \<Rightarrow> string \<Rightarrow> nat \<Rightarrow> csv_row list" where
  \<comment> \<open>\<open>n\<close> films of one country with the same \<open>listed_in\<close>\<close>
  "titles_of co li n =
     replicate n (mk_csv ''Movie'' ''2019'' (Some co) (Some ''90 min'') (Some li) None)"

definition eleven_countries :: "csv_row list" where
  \<comment> \<open>two one-genre films for each of ten countries, then one three-genre film of an
      eleventh\<close>
  "eleven_countries =
     concat (map (\<lambda>co. titles_of co ''Comedy'' 2)
       [''A'', ''B'', ''C'', ''D'', ''E'', ''F'', ''G'', ''H'', ''I'', ''J''])
     @ titles_of ''K'' ''Comedy, Drama, Horror'' 1"

definition mixed_listing :: "csv_row list" where
  \<comment> \<open>a film without \<open>listed_in\<close> and a series with two genres\<close>
  "mixed_listing =
     [mk_csv ''Movie'' ''2019'' (Some ''India'') (Some ''90 min'') None None,
      mk_csv ''TV Show'' ''2020'' (Some ''USA'') (Some ''2 Seasons'') (Some ''Drama, Comedy'') None]"

definition no_country_title :: "csv_row list" where
  "no_country_title = [mk_csv ''Movie'' ''2019'' None (Some ''90 min'') (Some ''Comedy'') None]"

definition us_canada_title :: csv_row where
  "us_canada_title =
     mk_csv ''Movie'' ''2019'' (Some ''United States, Canada'') (Some ''90 min'') (Some ''Comedy'') None"

section \<open>Properties\<close>

subsection \<open>Masks and filters\<close>

lemma loc_mask_map: "loc_mask rows (map p rows) = filter p rows"
  unfolding loc_mask_def by (induction rows) auto

lemma dropna_append: "dropna (xs @ ys) = dropna xs @ dropna ys"
  unfolding dropna_def by (induction xs) (auto simp: List.map_filter_simps split: option.splits)

lemma dropna_Cons: "dropna (x # xs) = (case x of None \<Rightarrow> dropna xs | Some v \<Rightarrow> v # dropna xs)"
  unfolding dropna_def by (simp add: List.map_filter_simps)

lemma dropna_Nil: "dropna [] = []"
  unfolding dropna_def by (simp add: List.map_filter_simps)

lemma year_mask:
  "and_mask (ge_col (map release_year df) lo) (le_col (map release_year df) hi)
     = map (\<lambda>r. case release_year r of None \<Rightarrow> False | Some y \<Rightarrow> lo \<le> y \<and> y \<le> hi) df"
  unfolding and_mask_def ge_col_def le_col_def
  by (induction df) (auto split: option.splits)

lemma year_filter_eq:
  "year_filter df (lo, hi)
     = filter (\<lambda>r. case release_year r of None \<Rightarrow> False | Some y \<Rightarrow> lo \<le> y \<and> y \<le> hi) df"
  unfolding year_filter_def by (simp add: year_mask loc_mask_map)

lemma type_filter_eq:
  "type_filter rows t = filter (\<lambda>r. t = ''All'' \<or> type r = Some t) rows"
  unfolding type_filter_def eq_col_def by (simp add: loc_mask_map comp_def)

lemma starts_with_prefix: "starts_with p s = prefix p s"
  by (induction p s rule: starts_with.induct) auto

lemma is_substring_sublist: "is_substring p s = sublist p s"
  by (induction s) (auto simp: starts_with_prefix sublist_Cons_right)

lemma country_filter_eq:
  "country_filter lib rows c =
     (if c = ''All'' then Inr rows
      else (case re_search lib c of
              Inl e \<Rightarrow> Inl e
            | Inr search \<Rightarrow>
                Inr (filter (\<lambda>r. case country r of None \<Rightarrow> False | Some s \<Rightarrow> search s) rows)))"
  unfolding country_filter_def str_contains_def
  by (simp add: loc_mask_map comp_def split: sum.splits)

lemma in_year_filter:
  "r \<in> set (year_filter df (lo, hi)) \<longleftrightarrow>
     r \<in> set df \<and> (\<exists>y. release_year r = Some y \<and> lo \<le> y \<and> y \<le> hi)"
  by (auto simp: year_filter_eq split: option.splits)

lemma filter_df_subset:
  "filter_df lib df yrs ty co = Inr fdf \<Longrightarrow> set fdf \<subseteq> set (year_filter df yrs)"
  unfolding filter_df_def
  by (auto simp: country_filter_eq type_filter_eq split: if_splits sum.splits)

lemma subseq_count_list: "subseq xs ys \<Longrightarrow> count_list xs v \<le> count_list ys v"
  by (induction rule: list_emb.induct) auto

lemma subseq_dropna_map: "subseq xs ys \<Longrightarrow> subseq (dropna (map f xs)) (dropna (map f ys))"
  by (induction rule: list_emb.induct) (auto simp: dropna_Cons dropna_Nil split: option.splits)

lemma subseq_filter_imp:
  "(\<And>x. P x \<Longrightarrow> Q x) \<Longrightarrow> subseq (filter P xs) (filter Q xs)"
  by (induction xs) auto

lemma filter_df_eq:
  "filter_df lib df (lo, hi) ty co =
     (if co = ''All''
      then Inr (filter (\<lambda>r. ty = ''All'' \<or> type r = Some ty)
                  (filter (\<lambda>r. case release_year r of None \<Rightarrow> False | Some y \<Rightarrow> lo \<le> y \<and> y \<le> hi) df))
      else (case re_search lib co of
              Inl e \<Rightarrow> Inl e
            | Inr search \<Rightarrow>
                Inr (filter (\<lambda>r. case country r of None \<Rightarrow> False | Some s \<Rightarrow> search s)
                       (filter (\<lambda>r. ty = ''All'' \<or> type r = Some ty)
                          (filter (\<lambda>r. case release_year r of None \<Rightarrow> False | Some y \<Rightarrow> lo \<le> y \<and> y \<le> hi) df)))))"
  unfolding filter_df_def
  by (simp add: country_filter_eq type_filter_eq year_filter_eq del: filter_filter)

lemma filter_df_narrow:
  assumes "lo2 \<le> lo1" "hi1 \<le> hi2" "ty1 = ty2 \<or> ty2 = ''All''" "co1 = co2 \<or> co2 = ''All''"
    and "filter_df lib df (lo1, hi1) ty1 co1 = Inr rows1"
  shows "\<exists>rows2. filter_df lib df (lo2, hi2) ty2 co2 = Inr rows2 \<and> subseq rows1 rows2"
proof -
  let ?Y1 = "\<lambda>r. case release_year r of None \<Rightarrow> False | Some y \<Rightarrow> lo1 \<le> y \<and> y \<le> hi1"
  let ?Y2 = "\<lambda>r. case release_year r of None \<Rightarrow> False | Some y \<Rightarrow> lo2 \<le> y \<and> y \<le> hi2"
  let ?T1 = "\<lambda>r. ty1 = ''All'' \<or> type r = Some ty1"
  let ?T2 = "\<lambda>r. ty2 = ''All'' \<or> type r = Some ty2"
  have Y: "\<And>r. ?Y1 r \<Longrightarrow> ?Y2 r"
    using assms(1,2) by (auto split: option.splits)
  have T: "\<And>r. ?T1 r \<Longrightarrow> ?T2 r"
    using assms(3) by auto
  have sub: "\<And>C1 C2. (\<And>r. C1 r \<Longrightarrow> C2 r) \<Longrightarrow>
      subseq (filter C1 (filter ?T1 (filter ?Y1 df))) (filter C2 (filter ?T2 (filter ?Y2 df)))"
  proof -
    fix C1 C2 :: "(string option) row \<Rightarrow> bool"
    assume C: "\<And>r. C1 r \<Longrightarrow> C2 r"
    have "subseq (filter (\<lambda>r. ?Y1 r \<and> ?T1 r \<and> C1 r) df) (filter (\<lambda>r. ?Y2 r \<and> ?T2 r \<and> C2 r) df)"
      by (rule subseq_filter_imp) (use Y T C in blast)
    then show "subseq (filter C1 (filter ?T1 (filter ?Y1 df))) (filter C2 (filter ?T2 (filter ?Y2 df)))"
      by (simp add: conj_commute conj_left_commute)
  qed
  show ?thesis
  proof (cases "co2 = ''All''")
    case True
    have f2: "filter_df lib df (lo2, hi2) ty2 co2 = Inr (filter ?T2 (filter ?Y2 df))"
      using True by (simp add: filter_df_eq)
    show ?thesis
    proof (cases "co1 = ''All''")
      case True
      then have "rows1 = filter ?T1 (filter ?Y1 df)"
        using assms(5) by (simp add: filter_df_eq)
      then show ?thesis using f2 sub [of "\<lambda>r. True" "\<lambda>r. True"] by simp
    next
      case False
      then obtain search where
        "rows1 = filter (\<lambda>r. case country r of None \<Rightarrow> False | Some s \<Rightarrow> search s)
                   (filter ?T1 (filter ?Y1 df))"
        using assms(5) by (auto simp: filter_df_eq split: sum.splits)
      then show ?thesis
        using f2 sub [of "\<lambda>r. case country r of None \<Rightarrow> False | Some s \<Rightarrow> search s" "\<lambda>r. True"]
        by simp
    qed
  next
    case False
    then have eq: "co1 = co2" using assms(4) by simp
    then obtain search where s: "re_search lib co2 = Inr search"
      and r1: "rows1 = filter (\<lambda>r. case country r of None \<Rightarrow> False | Some s \<Rightarrow> search s)
                   (filter ?T1 (filter ?Y1 df))"
      using assms(5) False by (auto simp: filter_df_eq split: sum.splits)
    have "filter_df lib df (lo2, hi2) ty2 co2
        = Inr (filter (\<lambda>r. case country r of None \<Rightarrow> False | Some s \<Rightarrow> search s)
                 (filter ?T2 (filter ?Y2 df)))"
      using False s by (simp add: filter_df_eq)
    then show ?thesis
      using r1 sub [of "\<lambda>r. case country r of None \<Rightarrow> False | Some s \<Rightarrow> search s"
                       "\<lambda>r. case country r of None \<Rightarrow> False | Some s \<Rightarrow> search s"]
      by simp
  qed
qed

subsection \<open>Splitting and exploding\<close>

lemma str_split_nonempty: "str_split sep s \<noteq> []"
  by (induction sep s rule: str_split.induct) (auto split: list.splits)

lemma starts_with_take: "starts_with p s \<Longrightarrow> p @ drop (length p) s = s"
  by (induction p s rule: starts_with.induct) auto

lemma join_str_split: "join sep (str_split sep s) = s"
proof (induction sep s rule: str_split.induct)
  case (1 sep)
  then show ?case by simp
next
  case (2 sep c cs)
  show ?case
  proof (cases "sep \<noteq> [] \<and> starts_with sep (c # cs)")
    case True
    then have "join sep (str_split sep (drop (length sep) (c # cs))) = drop (length sep) (c # cs)"
      using 2 by simp
    moreover obtain u us where "str_split sep (drop (length sep) (c # cs)) = u # us"
      using str_split_nonempty [of sep "drop (length sep) (c # cs)"] by (cases "str_split sep (drop (length sep) (c # cs))") auto
    ultimately show ?thesis using True starts_with_take [of sep "c # cs"] by simp
  next
    case False
    then have ih: "join sep (str_split sep cs) = cs" using 2 by simp
    obtain u us where u: "str_split sep cs = u # us"
      using str_split_nonempty [of sep cs] by (cases "str_split sep cs") auto
    show ?thesis using False ih u by (cases us) auto
  qed
qed

lemma str_split_head_prefix: "prefix (hd (str_split sep s)) s"
proof -
  obtain t ts where ts: "str_split sep s = t # ts"
    using str_split_nonempty [of sep s] by (cases "str_split sep s") auto
  have "join sep (t # ts) = s" using join_str_split [of sep s] ts by simp
  then have "prefix t s" by (cases ts) auto
  then show ?thesis using ts by simp
qed

lemma starts_with_mono: "starts_with p s \<Longrightarrow> prefix s s' \<Longrightarrow> starts_with p s'"
  by (metis prefix_order.order_trans starts_with_prefix)

lemma str_split_tokens_free:
  "sep \<noteq> [] \<Longrightarrow> t \<in> set (str_split sep s) \<Longrightarrow> \<not> is_substring sep t"
proof (induction sep s arbitrary: t rule: str_split.induct)
  case (1 sep)
  then show ?case by simp
next
  case (2 sep c cs)
  show ?case
  proof (cases "sep \<noteq> [] \<and> starts_with sep (c # cs)")
    case True
    then show ?thesis using 2 by auto
  next
    case False
    obtain u us where u: "str_split sep cs = u # us"
      using str_split_nonempty [of sep cs] by (cases "str_split sep cs") auto
    have pre: "prefix u cs" using str_split_head_prefix [of sep cs] u by simp
    have t: "t = c # u \<or> t \<in> set us" using 2(4) False u by auto
    show ?thesis
    proof (cases "t = c # u")
      case True
      have "\<not> starts_with sep (c # u)"
        using False 2(3) pre starts_with_mono [of sep "c # u" "c # cs"] by auto
      moreover have "\<not> is_substring sep u" using 2(2) [of u] False 2(3) u by simp
      ultimately show ?thesis using True by simp
    next
      case False
      then have "t \<in> set (str_split sep cs)" using t u by simp
      then show ?thesis using 2(2) [of t] \<open>\<not> (sep \<noteq> [] \<and> starts_with sep (c # cs))\<close> 2(3) by simp
    qed
  qed
qed

lemma explode_genres_eq:
  "explode_genres (preprocess lib r) =
     (case csv_listed_in r of
        None \<Rightarrow> [with_genres (preprocess lib r) None]
      | Some s \<Rightarrow> map (\<lambda>g. with_genres (preprocess lib r) (Some g)) (str_split '', '' s))"
proof (cases "csv_listed_in r")
  case None
  then show ?thesis by (simp add: explode_genres_def explode_cell_def preprocess_def Let_def)
next
  case (Some s)
  obtain t ts where "str_split '', '' s = t # ts"
    using str_split_nonempty [of "'', ''" s] by (cases "str_split '', '' s") auto
  then show ?thesis using Some
    by (simp add: explode_genres_def explode_cell_def preprocess_def Let_def)
qed

lemma length_exploded_rows:
  "length (exploded_rows lib csv) =
     sum_list (map (\<lambda>r. case csv_listed_in r of None \<Rightarrow> 1 | Some s \<Rightarrow> length (str_split '', '' s)) csv)"
  unfolding exploded_rows_def
  by (induction csv) (auto simp: explode_genres_eq split: option.splits)

lemma country_preprocess:
  "country (preprocess lib raw) = Some (case csv_country raw of None \<Rightarrow> ''Unknown'' | Some s \<Rightarrow> s)"
  by (simp add: preprocess_def Let_def fillna_def split: option.splits)

lemma country_exploded:
  "r \<in> set (explode_genres (preprocess lib raw)) \<Longrightarrow>
     country r = Some (case csv_country raw of None \<Rightarrow> ''Unknown'' | Some s \<Rightarrow> s)"
  using country_preprocess [of lib raw]
  by (auto simp: explode_genres_def with_genres_def)

lemma is_substring_iff: "is_substring p s \<longleftrightarrow> (\<exists>pre suf. s = pre @ p @ suf)"
  by (simp add: is_substring_sublist sublist_def)

subsection \<open>Counting\<close>

lemma sum_tally: "sum_list (map snd (tally v kcs)) = Suc (sum_list (map snd kcs))"
  by (induction v kcs rule: tally.induct) auto

lemma sum_tally_all:
  "sum_list (map snd (foldl (\<lambda>acc v. tally v acc) acc xs)) = sum_list (map snd acc) + length xs"
  by (induction xs arbitrary: acc) (auto simp: sum_tally)

lemma sum_value_counts: "sum_list (map snd (value_counts col)) = length (dropna col)"
proof -
  have "sum_list (map snd (value_counts col))
      = sum_mset (image_mset snd (mset (value_counts col)))"
    by (metis mset_map sum_mset_sum_list)
  also have "\<dots> = sum_mset (image_mset snd (mset (foldl (\<lambda>acc v. tally v acc) [] (dropna col))))"
    unfolding value_counts_def by simp
  also have "\<dots> = sum_list (map snd (foldl (\<lambda>acc v. tally v acc) [] (dropna col)))"
    by (metis mset_map sum_mset_sum_list)
  finally show ?thesis by (simp add: sum_tally_all)
qed

lemma dropna_length: "length (dropna (map f rows)) = length (filter (\<lambda>r. f r \<noteq> None) rows)"
  unfolding dropna_def by (induction rows) (auto simp: List.map_filter_simps split: option.splits)

lemma count_of_tally: "count_of (tally v kcs) w = count_of kcs w + (if v = w then 1 else 0)"
  by (induction v kcs rule: tally.induct) (auto simp: count_of_def)

lemma count_of_tally_all:
  "count_of (foldl (\<lambda>acc v. tally v acc) acc xs) w = count_of acc w + count_list xs w"
  by (induction xs arbitrary: acc) (auto simp: count_of_tally)

lemma keys_tally: "set (map fst (tally v kcs)) = insert v (set (map fst kcs))"
  by (induction v kcs rule: tally.induct) auto

lemma distinct_tally: "distinct (map fst kcs) \<Longrightarrow> distinct (map fst (tally v kcs))"
proof (induction v kcs rule: tally.induct)
  case (1 v)
  then show ?case by simp
next
  case (2 v k c kcs)
  then show ?case using keys_tally [of v kcs] by (auto simp del: set_map)
qed

lemma distinct_tally_all:
  "distinct (map fst acc) \<Longrightarrow> distinct (map fst (foldl (\<lambda>acc v. tally v acc) acc xs))"
  by (induction xs arbitrary: acc) (auto simp: distinct_tally)

lemma keys_tally_all:
  "set (map fst (foldl (\<lambda>acc v. tally v acc) acc xs)) = set (map fst acc) \<union> set xs"
  by (induction xs arbitrary: acc) (auto simp: keys_tally simp del: set_map)

lemma map_of_sort_key:
  assumes "distinct (map fst kcs)"
  shows "map_of (sort_key f kcs) = map_of kcs"
proof -
  have "mset (map fst (sort_key f kcs)) = mset (map fst kcs)"
    by simp
  then have "distinct (map fst (sort_key f kcs))"
    using assms mset_eq_imp_distinct_iff by blast
  then show ?thesis
    using assms by (simp add: map_of_inject_set)
qed

lemma count_of_value_counts: "count_of (value_counts col) v = count_list (dropna col) v"
proof -
  have "map_of (value_counts col) = map_of (foldl (\<lambda>acc v. tally v acc) [] (dropna col))"
    unfolding value_counts_def by (rule map_of_sort_key) (simp add: distinct_tally_all)
  then have "count_of (value_counts col) v = count_of (foldl (\<lambda>acc v. tally v acc) [] (dropna col)) v"
    by (simp add: count_of_def)
  moreover have "count_of [] v = 0" by (simp add: count_of_def)
  ultimately show ?thesis by (simp add: count_of_tally_all)
qed

lemma keys_value_counts: "set (map fst (value_counts col)) = set (dropna col)"
proof -
  have "set (map fst (value_counts col))
      = fst ` set (foldl (\<lambda>acc v. tally v acc) [] (dropna col))"
    unfolding value_counts_def by simp
  also have "\<dots> = set (map fst (foldl (\<lambda>acc v. tally v acc) [] (dropna col)))"
    by simp
  also have "\<dots> = set (dropna col)"
    by (simp only: keys_tally_all) simp
  finally show ?thesis .
qed

lemma distinct_value_counts: "distinct (map fst (value_counts col))"
proof -
  have "mset (map fst (value_counts col)) = mset (map fst (foldl (\<lambda>acc v. tally v acc) [] (dropna col)))"
    unfolding value_counts_def by simp
  moreover have "distinct (map fst (foldl (\<lambda>acc v. tally v acc) [] (dropna col)))"
    by (rule distinct_tally_all) simp
  ultimately show ?thesis
    using mset_eq_imp_distinct_iff by blast
qed












subsection \<open>The loaded table\<close>

lemma load_df_rows: "load_df lib csv = Inr df \<Longrightarrow> df = exploded_rows lib csv"
  by (auto simp: load_df_def prepare_df_def split: sum.splits)

lemma count_list_concat: "count_list (concat xss) v = sum_list (map (\<lambda>xs. count_list xs v) xss)"
  by (induction xss) auto

lemma genres_exploded_rows:
  "dropna (map genres (exploded_rows lib csv))
     = concat (map (\<lambda>r. case csv_listed_in r of None \<Rightarrow> [] | Some s \<Rightarrow> str_split '', '' s) csv)"
proof -
  have m: "dropna (map Some xs) = xs" for xs :: "string list"
    by (induction xs) (auto simp: dropna_Cons dropna_Nil)
  have "dropna (map genres (explode_genres (preprocess lib r)))
      = (case csv_listed_in r of None \<Rightarrow> [] | Some s \<Rightarrow> str_split '', '' s)" for r
    by (cases "csv_listed_in r")
      (simp_all add: explode_genres_eq with_genres_def comp_def dropna_Cons dropna_Nil m)
  then show ?thesis
    unfolding exploded_rows_def
    by (induction csv) (simp_all add: dropna_Nil dropna_append)
qed

lemma genre_bucket_count:
  "count_of (value_counts (map genres (exploded_rows lib csv))) g
     = sum_list (map (\<lambda>r. case csv_listed_in r of
                             None \<Rightarrow> 0
                           | Some s \<Rightarrow> count_list (str_split '', '' s) g) csv)"
proof -
  have "sum_list (map (\<lambda>r. count_list (case csv_listed_in r of None \<Rightarrow> []
                                          | Some s \<Rightarrow> str_split '', '' s) g) csv)
      = sum_list (map (\<lambda>r. case csv_listed_in r of None \<Rightarrow> 0
                             | Some s \<Rightarrow> count_list (str_split '', '' s) g) csv)"
    by (rule arg_cong [where f = sum_list], rule map_cong) (auto split: option.splits)
  then show ?thesis
    by (simp add: count_of_value_counts genres_exploded_rows count_list_concat comp_def)
qed


subsection \<open>Runs of the callback on the store\<close>

lemmas py_defs = ret_def raise_def seq_def lift_def new_def modify_def deref_def frame_of_def
  table_of_def column_of_def fig_of_def set_columns_def fig_update_def px_def

lemma pie_stmts_run:
  assumes "a < length h" "h ! a = Frame f"
  shows "pie_stmts a h =
    (Inr (Suc (length h)),
     h @ [Table [''type'', ''count''] (Counts (value_counts (map type f))),
          Fig (figures (make_charts f) ! 0)])"
  using assms by (simp add: pie_stmts_def py_defs nth_append figures_def make_charts_def)

lemma bar_stmts_run:
  assumes "a < length h" "h ! a = Frame f"
  shows "bar_stmts a h =
    (Inr (Suc (length h)),
     h @ [Table [''genre'', ''count''] (Counts (take 10 (value_counts (map genres f)))),
          Fig (figures (make_charts f) ! 1)])"
  using assms by (simp add: bar_stmts_def py_defs nth_append figures_def make_charts_def)

lemma line_stmts_run:
  assumes "a < length h" "h ! a = Frame f"
  shows "line_stmts a h =
    (Inr (Suc (length h)),
     h @ [Table [''year_added'', ''type'', ''count''] (Groups (groupby_size (timeline_keys f))),
          Fig (figures (make_charts f) ! 2)])"
  using assms by (simp add: line_stmts_def py_defs nth_append figures_def make_charts_def)

lemma scatter_stmts_run:
  assumes "a < length h" "h ! a = Frame f"
  shows "scatter_stmts a h =
    (Inr (Suc (length h)),
     h @ [Frame (filter (\<lambda>r. duration_num r \<noteq> None) f),
          Fig (figures (make_charts f) ! 3)])"
  using assms by (simp add: scatter_stmts_def py_defs nth_append figures_def make_charts_def)

lemma map_stmts_run:
  assumes "a < length h" "h ! a = Frame f"
  shows "map_stmts a h =
    (Inr (Suc (Suc (length h))),
     h @ [Column (explode_countries f),
          Table [''country'', ''count''] (Counts (value_counts (explode_countries f))),
          Fig (figures (make_charts f) ! 4)])"
  using assms by (simp add: map_stmts_def py_defs nth_append figures_def make_charts_def)

lemma filter_stmts_run:
  assumes "a < length h" "h ! a = Frame df"
  shows "\<exists>ext. snd (filter_stmts lib a yrs ty co h) = h @ ext
    \<and> (case filter_df lib df yrs ty co of
         Inl e \<Rightarrow> fst (filter_stmts lib a yrs ty co h) = Inl e
       | Inr rows \<Rightarrow>
           (\<exists>b. fst (filter_stmts lib a yrs ty co h) = Inr b
              \<and> b < length (h @ ext) \<and> (h @ ext) ! b = Frame rows))"
proof (cases "co = ''All''")
  case True
  show ?thesis
  proof (cases "ty = ''All''")
    case True
    with \<open>co = ''All''\<close> assms show ?thesis
      by (simp add: filter_stmts_def filter_df_def type_filter_def country_filter_def py_defs
          nth_append)
  next
    case False
    with \<open>co = ''All''\<close> assms show ?thesis
      by (simp add: filter_stmts_def filter_df_def type_filter_def country_filter_def py_defs
          nth_append)
  qed
next
  case False
  show ?thesis
  proof (cases "re_search lib co")
    case (Inl e)
    with False assms show ?thesis
      by (cases "ty = ''All''")
        (simp_all add: filter_stmts_def filter_df_def type_filter_def country_filter_def
          str_contains_def py_defs nth_append)
  next
    case (Inr search)
    with False assms show ?thesis
      by (cases "ty = ''All''")
        (simp_all add: filter_stmts_def filter_df_def type_filter_def country_filter_def
          str_contains_def py_defs nth_append)
  qed
qed

lemma callback_run:
  assumes "a < length h" "h ! a = Frame df"
  shows "(\<exists>ext. snd (callback lib a inp h) = h @ ext)
    \<and> fst (callback lib a inp h)
        = map_sum id figures (update_dashboard lib df (fst inp) (fst (snd inp)) (snd (snd inp)))"
proof -
  obtain yrs ty co where inp: "inp = (yrs, ty, co)" by (cases inp) auto
  obtain ext where ext: "snd (filter_stmts lib a yrs ty co h) = h @ ext"
    and res: "case filter_df lib df yrs ty co of
         Inl e \<Rightarrow> fst (filter_stmts lib a yrs ty co h) = Inl e
       | Inr rows \<Rightarrow>
           (\<exists>b. fst (filter_stmts lib a yrs ty co h) = Inr b
              \<and> b < length (h @ ext) \<and> (h @ ext) ! b = Frame rows)"
    using filter_stmts_run [OF assms, of lib yrs ty co] by blast
  show ?thesis
  proof (cases "filter_df lib df yrs ty co")
    case (Inl e)
    then have "filter_stmts lib a yrs ty co h = (Inl e, h @ ext)"
      using ext res by (simp add: prod_eq_iff)
    then show ?thesis
      using Inl by (simp add: callback_def inp seq_def update_dashboard_def)
  next
    case (Inr rows)
    then obtain b where b: "filter_stmts lib a yrs ty co h = (Inr b, h @ ext)"
      and bl: "b < length (h @ ext)" and bf: "(h @ ext) ! b = Frame rows"
      using ext res by (auto simp: prod_eq_iff)
    define h1 where "h1 = h @ ext"
    note b = b [folded h1_def] and bl = bl [folded h1_def] and bf = bf [folded h1_def]
    have ok: "b < length (h1 @ xs) \<and> (h1 @ xs) ! b = Frame rows" for xs
      using bl bf by (simp add: nth_append)
    have f: "figures (make_charts rows)
        = [figures (make_charts rows) ! 0, figures (make_charts rows) ! 1,
           figures (make_charts rows) ! 2, figures (make_charts rows) ! 3,
           figures (make_charts rows) ! 4]"
      by (simp add: figures_def)
    have p1: "pie_stmts b h1 = (Inr (Suc (length h1)),
        h1 @ [Table [''type'', ''count''] (Counts (value_counts (map type rows))),
               Fig (figures (make_charts rows) ! 0)])"
      using pie_stmts_run [OF bl bf] .
    let ?h2 = "h1 @ [Table [''type'', ''count''] (Counts (value_counts (map type rows))),
               Fig (figures (make_charts rows) ! 0)]"
    have p2: "bar_stmts b ?h2 = (Inr (Suc (length ?h2)),
        ?h2 @ [Table [''genre'', ''count''] (Counts (take 10 (value_counts (map genres rows)))),
               Fig (figures (make_charts rows) ! 1)])"
      using bar_stmts_run [of b ?h2 rows] ok [of "[_, _]"] by simp
    let ?h3 = "?h2 @ [Table [''genre'', ''count''] (Counts (take 10 (value_counts (map genres rows)))),
               Fig (figures (make_charts rows) ! 1)]"
    have p3: "line_stmts b ?h3 = (Inr (Suc (length ?h3)),
        ?h3 @ [Table [''year_added'', ''type'', ''count''] (Groups (groupby_size (timeline_keys rows))),
               Fig (figures (make_charts rows) ! 2)])"
      using line_stmts_run [of b ?h3 rows] ok [of "[_, _, _, _]"] by simp
    let ?h4 = "?h3 @ [Table [''year_added'', ''type'', ''count''] (Groups (groupby_size (timeline_keys rows))),
               Fig (figures (make_charts rows) ! 2)]"
    have p4: "scatter_stmts b ?h4 = (Inr (Suc (length ?h4)),
        ?h4 @ [Frame (filter (\<lambda>r. duration_num r \<noteq> None) rows),
               Fig (figures (make_charts rows) ! 3)])"
      using scatter_stmts_run [of b ?h4 rows] ok [of "[_, _, _, _, _, _]"] by simp
    let ?h5 = "?h4 @ [Frame (filter (\<lambda>r. duration_num r \<noteq> None) rows),
               Fig (figures (make_charts rows) ! 3)]"
    have p5: "map_stmts b ?h5 = (Inr (Suc (Suc (length ?h5))),
        ?h5 @ [Column (explode_countries rows),
               Table [''country'', ''count''] (Counts (value_counts (explode_countries rows))),
               Fig (figures (make_charts rows) ! 4)])"
      using map_stmts_run [of b ?h5 rows] ok [of "[_, _, _, _, _, _, _, _]"] by simp
    have "callback lib a inp h = (Inr [figures (make_charts rows) ! 0, figures (make_charts rows) ! 1,
           figures (make_charts rows) ! 2, figures (make_charts rows) ! 3,
           figures (make_charts rows) ! 4],
        ?h5 @ [Column (explode_countries rows),
               Table [''country'', ''count''] (Counts (value_counts (explode_countries rows))),
               Fig (figures (make_charts rows) ! 4)])"
      unfolding callback_def inp
      apply (simp only: prod.case seq_def b p1 p2 p3 p4 p5 sum.case)
      apply (simp add: fig_of_def deref_def seq_def ret_def raise_def nth_append)
      done
    then have "callback lib a inp h = (Inr (figures (make_charts rows)),
        ?h5 @ [Column (explode_countries rows),
               Table [''country'', ''count''] (Counts (value_counts (explode_countries rows))),
               Fig (figures (make_charts rows) ! 4)])"
      using f by simp
    then show ?thesis
      using Inr by (simp add: inp update_dashboard_def h1_def)
  qed
qed

lemma serve_run:
  assumes "a < length h" "h ! a = Frame df"
  shows "fst (serve lib a inps h)
           = map (\<lambda>inp. map_sum id figures
                    (update_dashboard lib df (fst inp) (fst (snd inp)) (snd (snd inp)))) inps
    \<and> (\<exists>ext. snd (serve lib a inps h) = h @ ext)"
  using assms
proof (induction inps arbitrary: h)
  case Nil
  then show ?case by simp
next
  case (Cons inp inps)
  obtain ext where ext: "snd (callback lib a inp h) = h @ ext"
    and out: "fst (callback lib a inp h)
        = map_sum id figures (update_dashboard lib df (fst inp) (fst (snd inp)) (snd (snd inp)))"
    using callback_run [OF Cons.prems, of lib inp] by blast
  have "a < length (h @ ext)" and "(h @ ext) ! a = Frame df"
    using Cons.prems by (simp_all add: nth_append)
  from Cons.IH [OF this] obtain ext' where
    "fst (serve lib a inps (h @ ext))
       = map (\<lambda>inp. map_sum id figures
                (update_dashboard lib df (fst inp) (fst (snd inp)) (snd (snd inp)))) inps"
    and "snd (serve lib a inps (h @ ext)) = (h @ ext) @ ext'"
    by blast
  then show ?case
    using ext out by (simp add: split_beta id_def)
qed

section \<open>The claims\<close>

subsection \<open>C1: the two-record scenario\<close>

text \<open>
  Claim C1. For the film (2019, India, 90 min, Comedy) and the series (2020, USA, 2 Seasons,
  Drama and Comedy) with the filters (2019 to 2020, All, All), the claim expects the type
  counts Movie 1, TV Show 1 and the genre counts Comedy 2, Drama 1. The callback counts
  rows of the genre-exploded \<open>df\<close>: the genre counts are as claimed, but the series has two
  rows there and the type counts come out as TV Show 2, Movie 1.
\<close>

theorem scenario_charts:
  "load_df sample_pandas scenario = Inr (exploded_rows sample_pandas scenario)
   \<and> map_sum id (\<lambda>ch. (type_counts ch, genre_counts ch))
     (update_dashboard sample_pandas (exploded_rows sample_pandas scenario) (2019, 2020) ''All'' ''All'')
   = Inr ([(''TV Show'', 2), (''Movie'', 1)], [(''Comedy'', 2), (''Drama'', 1)])"
  by code_simp

subsection \<open>C2: which table the charts are computed from\<close>

text \<open>
  Claim C2. Charts 1, 3, 4 and 5 should count every source record at most once. The
  module keeps no table but the exploded one, so one series with two genres is counted
  twice in the type counts, twice in its timeline point, twice in the scatter data and
  twice for its country.
\<close>

theorem two_genre_show_counted_twice:
  "load_df sample_pandas two_genre_show = Inr (exploded_rows sample_pandas two_genre_show)
   \<and> map_sum id (\<lambda>ch. (type_counts ch, timeline_df ch, length (scatter_df ch), country_counts ch))
     (update_dashboard sample_pandas (exploded_rows sample_pandas two_genre_show) (2020, 2020)
        ''All'' ''All'')
   = Inr ([(''TV Show'', 2)], [((2020, ''TV Show''), 2)], 2, [(''USA'', 2)])"
  by code_simp

subsection \<open>C3: the country options\<close>

text \<open>
  Claim C3. The ten country options should be the ten most frequent raw country values,
  each record counted once. The options are computed from the exploded \<open>df\<close>, where a
  record counts once per genre: with two one-genre films for each of the countries A to J
  and a single three-genre film of country K, counting records puts A to J in the list,
  while the module lists K first and drops J.
\<close>

theorem country_options_weighted_by_genres:
  "load_df sample_pandas eleven_countries = Inr (exploded_rows sample_pandas eleven_countries)
   \<and> map_sum id country_dropdown (app_layout (exploded_rows sample_pandas eleven_countries))
     = Inr [''All'', ''K'', ''A'', ''B'', ''C'', ''D'', ''E'', ''F'', ''G'', ''H'', ''I'']
   \<and> map fst (take 10 (value_counts (map country (map (preprocess sample_pandas) eleven_countries))))
     = [''A'', ''B'', ''C'', ''D'', ''E'', ''F'', ''G'', ''H'', ''I'', ''J'']"
  by code_simp

subsection \<open>C4: rows of the exploded view per record\<close>

text \<open>
  Claim C4, as amended. On a table that loads, a record whose \<open>listed_in\<close> is absent
  contributes exactly one row to the exploded table, with an absent genre, and that row is
  counted in no genre bucket; a record whose \<open>listed_in\<close> is present contributes one row
  per token of the split on \<open>", "\<close>, in order, all other columns unchanged. The tokens are
  those of the text: joined with \<open>", "\<close> they give it back, and none contains the
  separator. So the exploded table has as many rows as there are tokens, plus one for
  every record without \<open>listed_in\<close>, and the count of a genre is the number of tokens equal
  to it.
\<close>

theorem exploded_rows_per_record:
  assumes "load_df lib csv = Inr df"
  shows "df = concat (map (\<lambda>r. explode_genres (preprocess lib r)) csv)
    \<and> (\<forall>r \<in> set csv.
          explode_genres (preprocess lib r) =
            (case csv_listed_in r of
               None \<Rightarrow> [with_genres (preprocess lib r) None]
             | Some s \<Rightarrow> map (\<lambda>g. with_genres (preprocess lib r) (Some g)) (str_split '', '' s)))
    \<and> (\<forall>r \<in> set csv. \<forall>s. csv_listed_in r = Some s \<longrightarrow>
          join '', '' (str_split '', '' s) = s
          \<and> (\<forall>t \<in> set (str_split '', '' s). \<not> is_substring '', '' t))
    \<and> length df =
         sum_list (map (\<lambda>r. case csv_listed_in r of
                               None \<Rightarrow> 1
                             | Some s \<Rightarrow> length (str_split '', '' s)) csv)
    \<and> (\<forall>g. count_of (value_counts (map genres df)) g =
              sum_list (map (\<lambda>r. case csv_listed_in r of
                                    None \<Rightarrow> 0
                                  | Some s \<Rightarrow> count_list (str_split '', '' s) g) csv))"
proof -
  have df: "df = exploded_rows lib csv"
    using assms by (rule load_df_rows)
  show ?thesis
    unfolding df
    using explode_genres_eq [of lib] length_exploded_rows [of lib csv]
      join_str_split [of "'', ''"] str_split_tokens_free [of "'', ''"] genre_bucket_count [of lib csv]
    by (simp add: exploded_rows_def)
qed

theorem exploded_rows_per_record_witness:
  "load_df sample_pandas mixed_listing = Inr (exploded_rows sample_pandas mixed_listing)
   \<and> map csv_listed_in mixed_listing = [None, Some ''Drama, Comedy'']
   \<and> length (exploded_rows sample_pandas mixed_listing) = 3
   \<and> count_of (value_counts (map genres (exploded_rows sample_pandas mixed_listing))) ''Drama'' = 1
   \<and> join '', '' (str_split '', '' ''Drama, Comedy'') = ''Drama, Comedy''"
proof -
  have l: "load_df sample_pandas mixed_listing = Inr (exploded_rows sample_pandas mixed_listing)"
    by code_simp
  have c: "map csv_listed_in mixed_listing = [None, Some ''Drama, Comedy'']"
    by code_simp
  have s: "str_split '', '' ''Drama, Comedy'' = [''Drama'', ''Comedy'']"
    by code_simp
  have m: "mixed_listing = [hd mixed_listing, hd (tl mixed_listing)]"
    by (simp add: mixed_listing_def)
  have c0: "csv_listed_in (hd mixed_listing) = None" and c1: "csv_listed_in (hd (tl mixed_listing)) = Some ''Drama, Comedy''"
    by (simp_all add: mixed_listing_def mk_csv_def)
  have sums: "sum_list (map (\<lambda>r. case csv_listed_in r of None \<Rightarrow> 1
                 | Some s \<Rightarrow> length (str_split '', '' s)) mixed_listing) = 3"
      "sum_list (map (\<lambda>r. case csv_listed_in r of None \<Rightarrow> 0
                 | Some s \<Rightarrow> count_list (str_split '', '' s) ''Drama'') mixed_listing) = 1"
    by (subst m, simp add: c0 c1 s)+
  have len: "length (exploded_rows sample_pandas mixed_listing) =
         sum_list (map (\<lambda>r. case csv_listed_in r of None \<Rightarrow> 1
                             | Some s \<Rightarrow> length (str_split '', '' s)) mixed_listing)"
    using exploded_rows_per_record [OF l] by blast
  have cnt: "count_of (value_counts (map genres (exploded_rows sample_pandas mixed_listing))) ''Drama'' =
         sum_list (map (\<lambda>r. case csv_listed_in r of None \<Rightarrow> 0
                             | Some s \<Rightarrow> count_list (str_split '', '' s) ''Drama'') mixed_listing)"
    using exploded_rows_per_record [OF l] by blast
  show ?thesis
    using l c s sums len cnt by simp
qed

text \<open>The claim as stated (no row for a record without \<open>listed_in\<close>) fails on a table that
  loads: the film without \<open>listed_in\<close> has one row, whose genre is absent.\<close>

theorem absent_listed_in_counterexample:
  "load_df sample_pandas mixed_listing = Inr (exploded_rows sample_pandas mixed_listing)
   \<and> map csv_listed_in mixed_listing = [None, Some ''Drama, Comedy'']
   \<and> map (\<lambda>r. (type r, genres r)) (exploded_rows sample_pandas mixed_listing)
       = [(Some ''Movie'', None), (Some ''TV Show'', Some ''Drama''), (Some ''TV Show'', Some ''Comedy'')]"
  by code_simp

subsection \<open>C5: the year filter\<close>

text \<open>
  Claim C5. The year filter keeps exactly the rows whose release year is present and lies
  between the two ends of the selected range, both included; whatever the type and
  country selections, every row the charts see has such a release year, so a row with an
  absent release year is never among them.
\<close>

theorem year_filter_inclusive:
  "year_filter df (lo, hi)
     = filter (\<lambda>r. \<exists>y. release_year r = Some y \<and> lo \<le> y \<and> y \<le> hi) df
   \<and> (filter_df lib df (lo, hi) ty co = Inr fdf \<longrightarrow>
        (\<forall>r\<in>set fdf. \<exists>y. release_year r = Some y \<and> lo \<le> y \<and> y \<le> hi))"
proof
  show "year_filter df (lo, hi)
     = filter (\<lambda>r. \<exists>y. release_year r = Some y \<and> lo \<le> y \<and> y \<le> hi) df"
    unfolding year_filter_eq by (rule filter_cong) (auto split: option.splits)
next
  show "filter_df lib df (lo, hi) ty co = Inr fdf \<longrightarrow>
        (\<forall>r\<in>set fdf. \<exists>y. release_year r = Some y \<and> lo \<le> y \<and> y \<le> hi)"
    using filter_df_subset [of lib df "(lo, hi)" ty co fdf] in_year_filter [of _ df lo hi]
    by blast
qed

theorem year_filter_inclusive_witness:
  "load_df sample_pandas scenario = Inr (exploded_rows sample_pandas scenario)
   \<and> filter_df sample_pandas (exploded_rows sample_pandas scenario) (2020, 2020) ''All'' ''All''
     = Inr (exploded_rows sample_pandas (tl scenario))
   \<and> map release_year (exploded_rows sample_pandas (tl scenario)) = [Some 2020, Some 2020]
   \<and> list_all (\<lambda>r. \<exists>y. release_year r = Some y \<and> 2020 \<le> y \<and> y \<le> 2020)
        (exploded_rows sample_pandas (tl scenario))"
proof -
  have h: "filter_df sample_pandas (exploded_rows sample_pandas scenario) (2020, 2020) ''All'' ''All''
     = Inr (exploded_rows sample_pandas (tl scenario))"
    by code_simp
  have m: "map release_year (exploded_rows sample_pandas (tl scenario)) = [Some 2020, Some 2020]"
    by code_simp
  have l: "load_df sample_pandas scenario = Inr (exploded_rows sample_pandas scenario)"
    by code_simp
  show ?thesis
    using l h m year_filter_inclusive [of "exploded_rows sample_pandas scenario" 2020 2020 sample_pandas
        "''All''" "''All''" "exploded_rows sample_pandas (tl scenario)"]
    by (simp add: list_all_iff)
qed

subsection \<open>C6: the country filter\<close>

text \<open>
  Claim C6, as amended. When the selected country is not All and has no
  regular-expression metacharacter, a row is kept if and only if the selected name occurs
  as a substring of the row's country cell. An absent country was replaced by the text
  \<open>Unknown\<close> when the table was loaded, so the rows of a record are kept exactly when the
  name is a substring of the record's country, read as \<open>Unknown\<close> when absent.
\<close>

theorem country_filter_substring:
  assumes "selected_country \<noteq> ''All''" and "regex_literal selected_country"
  shows "country_filter lib rows selected_country
           = Inr (filter (\<lambda>r. \<exists>s pre suf. country r = Some s \<and> s = pre @ selected_country @ suf) rows)
         \<and> country_filter lib (explode_genres (preprocess lib raw)) selected_country
           = Inr (if \<exists>pre suf. (case csv_country raw of None \<Rightarrow> ''Unknown'' | Some s \<Rightarrow> s)
                                  = pre @ selected_country @ suf
                  then explode_genres (preprocess lib raw) else [])"
proof -
  have eq: "\<And>rows. country_filter lib rows selected_country
           = Inr (filter (\<lambda>r. \<exists>s pre suf. country r = Some s \<and> s = pre @ selected_country @ suf) rows)"
  proof -
    fix rows :: "(string option) row list"
    have "(case country r of None \<Rightarrow> False | Some s \<Rightarrow> is_substring selected_country s)
        = (\<exists>s pre suf. country r = Some s \<and> s = pre @ selected_country @ suf)" for r :: "(string option) row"
      by (cases "country r") (simp_all add: is_substring_iff)
    then show "country_filter lib rows selected_country
           = Inr (filter (\<lambda>r. \<exists>s pre suf. country r = Some s \<and> s = pre @ selected_country @ suf) rows)"
      using assms unfolding country_filter_eq re_search_def by simp
  qed
  have "filter (\<lambda>r. \<exists>s pre suf. country r = Some s \<and> s = pre @ selected_country @ suf)
          (explode_genres (preprocess lib raw))
      = (if \<exists>pre suf. (case csv_country raw of None \<Rightarrow> ''Unknown'' | Some s \<Rightarrow> s)
                                  = pre @ selected_country @ suf
         then explode_genres (preprocess lib raw) else [])"
    using country_exploded [of _ lib raw]
    by (auto simp: filter_empty_conv filter_id_conv)
  then show ?thesis using eq by simp
qed

theorem country_filter_substring_witness:
  "''Canada'' \<noteq> ''All'' \<and> regex_literal ''Canada''
   \<and> csv_country us_canada_title = Some ''United States, Canada''
   \<and> country_filter sample_pandas (explode_genres (preprocess sample_pandas us_canada_title)) ''Canada''
       = Inr (explode_genres (preprocess sample_pandas us_canada_title))
   \<and> explode_genres (preprocess sample_pandas us_canada_title) \<noteq> []"
proof -
  have a: "''Canada'' \<noteq> ''All''" by simp
  have b: "regex_literal ''Canada''" by code_simp
  have c: "csv_country us_canada_title = Some ''United States, Canada''" by code_simp
  have d: "''United States, Canada'' = ''United States, '' @ ''Canada'' @ []" by simp
  have e: "explode_genres (preprocess sample_pandas us_canada_title) \<noteq> []" by code_simp
  have "\<exists>pre suf. (case csv_country us_canada_title of None \<Rightarrow> ''Unknown'' | Some s \<Rightarrow> s)
          = pre @ ''Canada'' @ suf"
    unfolding c option.case using d by blast
  then have "country_filter sample_pandas
        (explode_genres (preprocess sample_pandas us_canada_title)) ''Canada''
      = Inr (explode_genres (preprocess sample_pandas us_canada_title))"
    using country_filter_substring [OF a b, of sample_pandas "[]" us_canada_title] by simp
  then show ?thesis
    using a b c e by simp
qed

text \<open>The claim as stated (a row with absent country is never kept by a filter other than
  All) fails: the filter \<open>Unknown\<close> keeps the row of a record without country.\<close>

theorem absent_country_counterexample:
  "load_df sample_pandas no_country_title = Inr (exploded_rows sample_pandas no_country_title)
   \<and> map csv_country no_country_title = [None]
   \<and> map_sum id (map country)
     (filter_df sample_pandas (exploded_rows sample_pandas no_country_title) (2019, 2019) ''All'' ''Unknown'')
   = Inr [Some ''Unknown'']"
  by code_simp

subsection \<open>C7: conservation of the genre counts\<close>

text \<open>
  Claim C7. Chart 2 shows the first ten entries of the genre counts of the filtered table;
  the counts of all genres add up to the number of rows of the filtered exploded table
  that carry a genre, that is, to the number of its (record, genre) pairs.
\<close>

theorem genre_counts_conserved:
  "genre_counts (make_charts fdf) = take 10 (value_counts (map genres fdf))
   \<and> sum_list (map snd (value_counts (map genres fdf)))
       = length (filter (\<lambda>r. genres r \<noteq> None) fdf)"
  by (simp add: make_charts_def sum_value_counts dropna_length)

theorem genre_counts_conserved_witness:
  "load_df sample_pandas scenario = Inr (exploded_rows sample_pandas scenario)
   \<and> sum_list (map snd (value_counts (map genres (exploded_rows sample_pandas scenario)))) = 3
   \<and> length (filter (\<lambda>r. genres r \<noteq> None) (exploded_rows sample_pandas scenario)) = 3"
proof -
  have "length (filter (\<lambda>r. genres r \<noteq> None) (exploded_rows sample_pandas scenario)) = 3"
    by code_simp
  moreover have "load_df sample_pandas scenario = Inr (exploded_rows sample_pandas scenario)"
    by code_simp
  ultimately show ?thesis
    using genre_counts_conserved [of "exploded_rows sample_pandas scenario"] by simp
qed

subsection \<open>C8: narrowing the filters\<close>

text \<open>
  Claim C8. Let the filters \<open>f1\<close> be at least as restrictive as \<open>f2\<close>: the year range of
  \<open>f1\<close> lies within that of \<open>f2\<close>, and type and country are each the same or All in \<open>f2\<close>.
  If the filtering succeeds under \<open>f1\<close> it succeeds under \<open>f2\<close>, the rows kept under
  \<open>f1\<close> are kept under \<open>f2\<close> (in the same order), and no type count of chart 1 is
  larger under \<open>f1\<close> than under \<open>f2\<close>.
\<close>

theorem filter_narrowing:
  assumes "lo2 \<le> lo1" "hi1 \<le> hi2" "ty1 = ty2 \<or> ty2 = ''All''" "co1 = co2 \<or> co2 = ''All''"
    and "filter_df lib df (lo1, hi1) ty1 co1 = Inr rows1"
  shows "\<exists>rows2. filter_df lib df (lo2, hi2) ty2 co2 = Inr rows2
           \<and> subseq rows1 rows2
           \<and> (\<forall>t. count_of (type_counts (make_charts rows1)) t
                    \<le> count_of (type_counts (make_charts rows2)) t)"
proof -
  obtain rows2 where r2: "filter_df lib df (lo2, hi2) ty2 co2 = Inr rows2" and s: "subseq rows1 rows2"
    using filter_df_narrow [OF assms] by blast
  have "count_of (type_counts (make_charts rows1)) t \<le> count_of (type_counts (make_charts rows2)) t" for t
    using subseq_count_list [OF subseq_dropna_map [OF s, of type], of t]
    by (simp add: make_charts_def count_of_value_counts)
  then show ?thesis using r2 s by blast
qed

theorem filter_narrowing_witness:
  "load_df sample_pandas scenario = Inr (exploded_rows sample_pandas scenario)
   \<and> filter_df sample_pandas (exploded_rows sample_pandas scenario) (2020, 2020) ''TV Show'' ''USA''
     = Inr (exploded_rows sample_pandas (tl scenario))
   \<and> filter_df sample_pandas (exploded_rows sample_pandas scenario) (2019, 2020) ''All'' ''All''
     = Inr (exploded_rows sample_pandas scenario)
   \<and> subseq (exploded_rows sample_pandas (tl scenario)) (exploded_rows sample_pandas scenario)
   \<and> count_of (type_counts (make_charts (exploded_rows sample_pandas (tl scenario)))) ''TV Show''
       \<le> count_of (type_counts (make_charts (exploded_rows sample_pandas scenario))) ''TV Show''"
proof -
  have h1: "filter_df sample_pandas (exploded_rows sample_pandas scenario) (2020, 2020) ''TV Show'' ''USA''
     = Inr (exploded_rows sample_pandas (tl scenario))"
    by code_simp
  have h2: "filter_df sample_pandas (exploded_rows sample_pandas scenario) (2019, 2020) ''All'' ''All''
     = Inr (exploded_rows sample_pandas scenario)"
    by code_simp
  have l: "load_df sample_pandas scenario = Inr (exploded_rows sample_pandas scenario)"
    by code_simp
  show ?thesis
    using l h1 h2 filter_narrowing [of 2019 2020 2020 2020 "''TV Show''" "''All''" "''USA''" "''All''"
        sample_pandas "exploded_rows sample_pandas scenario" "exploded_rows sample_pandas (tl scenario)"]
    by auto
qed

subsection \<open>C9: determinism and statelessness\<close>

text \<open>
  Claim C9. Let the global \<open>df\<close> be bound to a frame in the store, whatever else the store
  holds. A run of the callback returns the five figures of the tables that
  \<open>update_dashboard\<close> computes from that frame and the three inputs: the rest of the store
  plays no part in the result. The run only adds objects to the store: every object that
  was there, the frame of \<open>df\<close> included, is as it was. Hence a second run with the same
  inputs, on the store the first run left, returns the same result, and so does a run
  after any sequence of earlier runs.
\<close>

theorem recompute_deterministic:
  assumes "df_ref < length h" and "h ! df_ref = Frame df"
  shows "fst (callback lib df_ref inp h)
           = map_sum id figures
               (update_dashboard lib df (fst inp) (fst (snd inp)) (snd (snd inp)))
    \<and> (\<exists>ext. snd (callback lib df_ref inp h) = h @ ext)
    \<and> fst (callback lib df_ref inp (snd (callback lib df_ref inp h)))
        = fst (callback lib df_ref inp h)
    \<and> fst (callback lib df_ref inp (snd (serve lib df_ref earlier h)))
        = fst (callback lib df_ref inp h)"
proof -
  have run: "fst (callback lib df_ref inp h')
           = map_sum id figures
               (update_dashboard lib df (fst inp) (fst (snd inp)) (snd (snd inp)))"
    if "\<exists>ext. h' = h @ ext" for h'
  proof -
    from that obtain ext where h': "h' = h @ ext" by blast
    have "df_ref < length h'" and "h' ! df_ref = Frame df"
      using assms by (simp_all add: h' nth_append)
    then show ?thesis using callback_run [of df_ref h' df lib inp] by blast
  qed
  have 1: "\<exists>ext. snd (callback lib df_ref inp h) = h @ ext"
    using callback_run [OF assms, of lib inp] by blast
  have 2: "\<exists>ext. snd (serve lib df_ref earlier h) = h @ ext"
    using serve_run [OF assms, of lib earlier] by blast
  have 0: "\<exists>ext. h = h @ ext" by simp
  show ?thesis
    using run [OF 0] run [OF 1] run [OF 2] 1 by simp
qed

theorem recompute_deterministic_witness:
  "load_df sample_pandas scenario = Inr (exploded_rows sample_pandas scenario)
   \<and> length (snd (callback sample_pandas 0 ((2020, 2020), ''Movie'', ''India'')
                 [Frame (exploded_rows sample_pandas scenario)])) = 15
   \<and> fst (callback sample_pandas 0 ((2019, 2020), ''All'', ''All'')
          (snd (callback sample_pandas 0 ((2020, 2020), ''Movie'', ''India'')
                 [Frame (exploded_rows sample_pandas scenario)])))
     = fst (callback sample_pandas 0 ((2019, 2020), ''All'', ''All'')
             [Frame (exploded_rows sample_pandas scenario)])
   \<and> map_sum id (map fig_data)
       (fst (callback sample_pandas 0 ((2019, 2020), ''All'', ''All'')
             [Frame (exploded_rows sample_pandas scenario)]))
     = Inr [Counts [(''TV Show'', 2), (''Movie'', 1)], Counts [(''Comedy'', 2), (''Drama'', 1)],
            Groups [], Points (exploded_rows sample_pandas scenario),
            Counts [(''USA'', 2), (''India'', 1)]]"
proof -
  let ?h = "[Frame (exploded_rows sample_pandas scenario)]"
  have l: "load_df sample_pandas scenario = Inr (exploded_rows sample_pandas scenario)"
    by code_simp
  have n: "length (snd (callback sample_pandas 0 ((2020, 2020), ''Movie'', ''India'') ?h)) = 15"
    by code_simp
  have d: "map_sum id (map fig_data)
       (fst (callback sample_pandas 0 ((2019, 2020), ''All'', ''All'') ?h))
     = Inr [Counts [(''TV Show'', 2), (''Movie'', 1)], Counts [(''Comedy'', 2), (''Drama'', 1)],
            Groups [], Points (exploded_rows sample_pandas scenario),
            Counts [(''USA'', 2), (''India'', 1)]]"
    by code_simp
  have s: "snd (serve sample_pandas 0 [((2020, 2020), ''Movie'', ''India'')] ?h)
      = snd (callback sample_pandas 0 ((2020, 2020), ''Movie'', ''India'') ?h)"
    by (simp add: split_beta)
  have "fst (callback sample_pandas 0 ((2019, 2020), ''All'', ''All'')
          (snd (serve sample_pandas 0 [((2020, 2020), ''Movie'', ''India'')] ?h)))
     = fst (callback sample_pandas 0 ((2019, 2020), ''All'', ''All'') ?h)"
    using recompute_deterministic [of 0 ?h "exploded_rows sample_pandas scenario" sample_pandas
        "((2019, 2020), ''All'', ''All'')" "[((2020, 2020), ''Movie'', ''India'')]"]
    by simp
  then show ?thesis
    using l n d unfolding s by simp
qed

subsection \<open>C10: rows without \<open>year_added\<close>\<close>



end
